theory Spec2Isabelle
  imports Complex_Main
begin

section \<open>Data model\<close>

text \<open>
  The library computes with Python floats and numpy arrays of three floats. The embedding
  is over the real numbers: a float is a \<open>real\<close>, a length-3 array is a triple, and a
  3-by-3 array is a triple of rows. Rounding is not modelled.
\<close>

type_synonym vec3 = "real \<times> real \<times> real"
type_synonym mat3 = "vec3 \<times> vec3 \<times> vec3"

subsection \<open>Constants of \<open>wgs84.py\<close>\<close>

definition RE :: real where
  "RE = 6378137.0"

definition FLATTENING :: real where
  "FLATTENING = 0.00335281066475"

definition E2 :: real where
  "E2 = 0.00669437999014"

subsection \<open>Constants of \<open>ins_nav.utils\<close>\<close>

text \<open>
  Modelled from the spec: \<open>transforms.py\<close> imports \<open>RAD2DEG\<close> and \<open>DEG2RAD\<close> from
  \<open>ins_nav.utils\<close>, which is not among the sources. The specification says that
  \<open>llh2ecef\<close> converts latitude and longitude to radians and that \<open>ecef2llh\<close> converts
  them to degrees, so the two factors are \<open>pi / 180\<close> and \<open>180 / pi\<close>.
\<close>

definition DEG2RAD :: real where
  "DEG2RAD = pi / 180"

definition RAD2DEG :: real where
  "RAD2DEG = 180 / pi"

subsection \<open>The functions of Python's \<open>math\<close> module\<close>

text \<open>
  \<open>sqrt\<close>, \<open>sin\<close> and \<open>cos\<close> are the real functions of the same name. \<open>math.atan2(y, x)\<close>
  is the angle of the point \<open>(x, y)\<close> in the interval from \<open>-pi\<close> to \<open>pi\<close>, with
  \<open>atan2(0, 0) = 0\<close>; signed zeros do not exist over the reals.
\<close>

definition atan2 :: "real \<Rightarrow> real \<Rightarrow> real" where
  "atan2 y x =
     (if 0 < x then arctan (y / x)
      else if x < 0 then (if 0 \<le> y then arctan (y / x) + pi else arctan (y / x) - pi)
      else if 0 < y then pi / 2
      else if y < 0 then - (pi / 2)
      else 0)"

section \<open>Geodetic conversions\<close>

text \<open>
  \<open>llh2ecef(lat, lon, H)\<close> of \<open>transforms.py\<close>. The builtin \<open>pow(a, 3.0 / 2.0)\<close> is
  \<open>a powr (3 / 2)\<close>; its base \<open>1 - e2 * sin(lat)**2\<close> is at least \<open>1 - E2\<close>, hence positive.
\<close>

definition llh2ecef :: "real \<Rightarrow> real \<Rightarrow> real \<Rightarrow> vec3" where
  "llh2ecef lat0 lon0 H =
     (let lat = DEG2RAD * lat0;
          lon = DEG2RAD * lon0;
          e2 = E2;
          re = RE;
          rm = re * (1.0 - e2) / ((1.0 - e2 * (sin lat)\<^sup>2) powr (3.0 / 2.0));
          rn = re / sqrt (1.0 - e2 * (sin lat)\<^sup>2);
          x = (rn + H) * cos lat * cos lon;
          y = (rn + H) * cos lat * sin lon;
          z = (rm + H) * sin lat
      in (x, y, z))"

text \<open>
  The closed form as the specification words it: angles converted to radians, the
  meridional radius \<open>rm\<close> with exponent 1.5, the normal radius \<open>rn\<close>, and the three
  coordinates.
\<close>

definition spec_rm :: "real \<Rightarrow> real" where
  "spec_rm lat = RE * (1 - E2) / (1 - E2 * (sin lat)\<^sup>2) powr 1.5"

definition spec_rn :: "real \<Rightarrow> real" where
  "spec_rn lat = RE / sqrt (1 - E2 * (sin lat)\<^sup>2)"

definition spec_llh2ecef :: "real \<Rightarrow> real \<Rightarrow> real \<Rightarrow> vec3" where
  "spec_llh2ecef lat_deg lon_deg H =
     (let lat = lat_deg * pi / 180; lon = lon_deg * pi / 180
      in ((spec_rn lat + H) * cos lat * cos lon,
          (spec_rn lat + H) * cos lat * sin lon,
          (spec_rm lat + H) * sin lat))"

text \<open>
  \<open>ecef2llh(x, y, z)\<close> of \<open>transforms.py\<close>, as the value it returns when it returns. The
  arguments of \<open>sqrt\<close> are a sum of squares and \<open>1 - E2 * sin(L)**2\<close>, which is at least
  \<open>1 - E2\<close>, and \<open>b**2\<close> is a nonzero constant. The two operations that can raise,
  \<open>x**2\<close> (and \<open>y**2\<close>) and \<open>p / cos(L)\<close>, are followed in \<open>ecef2llh_checked\<close> below.
\<close>

definition ecef2llh :: "real \<Rightarrow> real \<Rightarrow> real \<Rightarrow> vec3" where
  "ecef2llh x y z =
     (let p = sqrt (x\<^sup>2 + y\<^sup>2);
          b = RE * (1 - FLATTENING);
          ep = (RE\<^sup>2 - b\<^sup>2) / (b\<^sup>2);
          theta = atan2 (z * RE) (p * b);
          l = atan2 y x;
          L = atan2 (z + ep * b * (sin theta) ^ 3) (p - E2 * RE * (cos theta) ^ 3);
          Re' = RE / sqrt (1 - E2 * (sin L)\<^sup>2);
          h = p / cos L - Re'
      in (RAD2DEG * L, RAD2DEG * l, h))"






text \<open>
  The round trip of the specification's section on testable properties,
  \<open>llh2ecef(*ecef2llh(x, y, z))\<close>.
\<close>

definition ecef_roundtrip :: "real \<Rightarrow> real \<Rightarrow> real \<Rightarrow> vec3" where
  "ecef_roundtrip x y z = (case ecef2llh x y z of (lat, lon, h) \<Rightarrow> llh2ecef lat lon h)"

section \<open>Arrays\<close>

text \<open>
  The numpy operations the library uses on its arrays: elementwise \<open>-\<close> and \<open>+\<close> of two
  vectors, \<open>M.dot(v)\<close> for a matrix and a vector, \<open>A.dot(B)\<close> for two matrices, and \<open>M.T\<close>.
\<close>

fun vec_sub :: "vec3 \<Rightarrow> vec3 \<Rightarrow> vec3" where
  "vec_sub (a1, a2, a3) (b1, b2, b3) = (a1 - b1, a2 - b2, a3 - b3)"

fun vec_add :: "vec3 \<Rightarrow> vec3 \<Rightarrow> vec3" where
  "vec_add (a1, a2, a3) (b1, b2, b3) = (a1 + b1, a2 + b2, a3 + b3)"

fun dot3 :: "vec3 \<Rightarrow> vec3 \<Rightarrow> real" where
  "dot3 (a1, a2, a3) (b1, b2, b3) = a1 * b1 + a2 * b2 + a3 * b3"

fun mat_dot_vec :: "mat3 \<Rightarrow> vec3 \<Rightarrow> vec3" where
  "mat_dot_vec (r1, r2, r3) v = (dot3 r1 v, dot3 r2 v, dot3 r3 v)"

fun mat_T :: "mat3 \<Rightarrow> mat3" where
  "mat_T ((a11, a12, a13), (a21, a22, a23), (a31, a32, a33)) =
     ((a11, a21, a31), (a12, a22, a32), (a13, a23, a33))"

fun mat_dot_mat :: "mat3 \<Rightarrow> mat3 \<Rightarrow> mat3" where
  "mat_dot_mat (r1, r2, r3) B =
     (case mat_T B of (c1, c2, c3) \<Rightarrow>
        ((dot3 r1 c1, dot3 r1 c2, dot3 r1 c3),
         (dot3 r2 c1, dot3 r2 c2, dot3 r2 c3),
         (dot3 r3 c1, dot3 r3 c2, dot3 r3 c3)))"

definition identity3 :: mat3 where
  "identity3 = ((1, 0, 0), (0, 1, 0), (0, 0, 1))"

fun det3 :: "mat3 \<Rightarrow> real" where
  "det3 ((a11, a12, a13), (a21, a22, a23), (a31, a32, a33)) =
     a11 * (a22 * a33 - a23 * a32) - a12 * (a21 * a33 - a23 * a31)
       + a13 * (a21 * a32 - a22 * a31)"

text \<open>
  The specification's invariant of a rotation matrix: the matrix times its transpose is
  the identity. A proper rotation has determinant one as well.
\<close>

definition orthonormal :: "mat3 \<Rightarrow> bool" where
  "orthonormal M = (mat_dot_mat M (mat_T M) = identity3)"

definition proper_rotation :: "mat3 \<Rightarrow> bool" where
  "proper_rotation M = (orthonormal M \<and> det3 M = 1)"

section \<open>The DCM builder\<close>

text \<open>
  \<open>llh2DCM(lat, lon, h, w)\<close>: latitude and longitude in radians, \<open>w\<close> the pair read as
  \<open>w[0]\<close> and \<open>w[1]\<close>.
\<close>

definition llh2DCM :: "real \<Rightarrow> real \<Rightarrow> real \<Rightarrow> real \<times> real \<Rightarrow> mat3" where
  "llh2DCM lat lon h w =
     (let sL = sin lat;
          cL = cos lat;
          sl = sin lon;
          cl = cos lon;
          Cgn = ((snd w, fst w, 0), (- fst w, snd w, 0), (0, 0, 1));
          Ceg = ((- sL * cl, - sL * sl, cL), (- sl, cl, 0), (- cL * cl, - cL * sl, - sL))
      in mat_dot_mat Cgn Ceg)"

section \<open>Navigation frames\<close>

text \<open>
  \<open>FrameTypes = IntFlag("FrameTypes", "NED ENU")\<close> numbers its members 1 and 2, and two
  members are equal when their numbers are.
\<close>

datatype FrameTypes = FrameTypes_NED | FrameTypes_ENU

fun FrameTypes_value :: "FrameTypes \<Rightarrow> int" where
  "FrameTypes_value FrameTypes_NED = 1"
| "FrameTypes_value FrameTypes_ENU = 2"

definition FrameTypes_eq :: "FrameTypes \<Rightarrow> FrameTypes \<Rightarrow> bool" where
  "FrameTypes_eq s t = (FrameTypes_value s = FrameTypes_value t)"

text \<open>The named tuple \<open>NavigationFrame\<close> with its fields \<open>origin\<close>, \<open>R\<close> and \<open>type\<close>.\<close>

record NavigationFrame =
  origin :: vec3
  R :: mat3
  type :: FrameTypes

definition ecef2nav :: "NavigationFrame \<Rightarrow> vec3 \<Rightarrow> vec3" where
  "ecef2nav self p_ecef = mat_dot_vec (R self) (vec_sub p_ecef (origin self))"

definition nav2ecef :: "NavigationFrame \<Rightarrow> vec3 \<Rightarrow> vec3" where
  "nav2ecef self p_nav = (let r = mat_T (R self) in vec_add (mat_dot_vec r p_nav) (origin self))"

text \<open>\<open>ENU(o, r)\<close> and \<open>NED(o, r)\<close>: the \<open>__new__\<close> of each class, and its \<open>__eq__\<close>.\<close>

definition ENU :: "vec3 \<Rightarrow> mat3 \<Rightarrow> NavigationFrame" where
  "ENU o' r = \<lparr>origin = o', R = r, type = FrameTypes_ENU\<rparr>"

definition ENU_eq :: "NavigationFrame \<Rightarrow> NavigationFrame \<Rightarrow> bool" where
  "ENU_eq self a = FrameTypes_eq (type self) (type a)"

definition NED :: "vec3 \<Rightarrow> mat3 \<Rightarrow> NavigationFrame" where
  "NED o' r = \<lparr>origin = o', R = r, type = FrameTypes_NED\<rparr>"

definition NED_eq :: "NavigationFrame \<Rightarrow> NavigationFrame \<Rightarrow> bool" where
  "NED_eq self a = FrameTypes_eq (type self) (type a)"

text \<open>The static factories of \<open>NED\<close>.\<close>

definition NED_from_ll :: "real \<Rightarrow> real \<Rightarrow> real \<Rightarrow> NavigationFrame" where
  "NED_from_ll lat0 lon0 alt =
     (let o_ecef = llh2ecef lat0 lon0 alt;
          lat = DEG2RAD * lat0;
          lon = DEG2RAD * lon0;
          M = ((- sin lat * cos lon, - sin lat * sin lon, cos lat),
               (- sin lon, cos lon, 0),
               (- cos lat * cos lon, - cos lat * sin lon, - sin lat))
      in NED o_ecef M)"

definition NED_from_ecef :: "real \<Rightarrow> real \<Rightarrow> real \<Rightarrow> NavigationFrame" where
  "NED_from_ecef x y z =
     (let o_ecef = (x, y, z) in
      case ecef2llh x y z of (lat0, lon0, _) \<Rightarrow>
        (let lat = DEG2RAD * lat0;
             lon = DEG2RAD * lon0;
             M = ((- sin lat * cos lon, - sin lat * sin lon, cos lat),
                  (- sin lon, cos lon, 0),
                  (- cos lat * cos lon, - cos lat * sin lon, - sin lat))
         in NED o_ecef M))"


section \<open>The classes and the names they provide\<close>





section \<open>Properties of \<open>llh2ecef\<close>\<close>

text \<open>
  C9. \<open>llh2ecef(0, 0, 0)\<close> is exactly \<open>(RE, 0, 0)\<close>, that is \<open>(6378137, 0, 0)\<close>: the point
  at the equator, on the prime meridian and at height zero lies on the semi-major axis.
\<close>

theorem llh2ecef_origin_fixed_point:
  "llh2ecef 0 0 0 = (RE, 0, 0) \<and> llh2ecef 0 0 0 = (6378137.0, 0, 0)"
  by (simp add: llh2ecef_def RE_def)

text \<open>
  C2. For all latitudes and longitudes in degrees and all heights, \<open>llh2ecef\<close> returns the
  closed form of the specification.
\<close>

theorem llh2ecef_closed_form:
  "llh2ecef lat lon H = spec_llh2ecef lat lon H"
  by (simp add: llh2ecef_def spec_llh2ecef_def spec_rm_def spec_rn_def DEG2RAD_def
      Let_def mult.commute)

section \<open>Algebra of the array operations\<close>

lemma vec_sub_self: "vec_sub v v = (0, 0, 0)"
  by (cases v) simp

lemma vec_sub_add: "vec_add (vec_sub p q) q = p"
  by (cases p; cases q) simp

lemma mat_dot_vec_zero: "mat_dot_vec M (0, 0, 0) = (0, 0, 0)"
  by (cases M) auto

lemma mat_dot_vec_id: "mat_dot_vec identity3 v = v"
  by (cases v) (simp add: identity3_def)

lemma mat_dot_vec_assoc: "mat_dot_vec A (mat_dot_vec B v) = mat_dot_vec (mat_dot_mat A B) v"
  by (cases A rule: mat_T.cases; cases B rule: mat_T.cases; cases v) (simp add: algebra_simps)

lemma mat_T_mult: "mat_T (mat_dot_mat A B) = mat_dot_mat (mat_T B) (mat_T A)"
  by (cases A rule: mat_T.cases; cases B rule: mat_T.cases) (simp add: algebra_simps)

lemma mat_dot_mat_assoc: "mat_dot_mat (mat_dot_mat A B) C = mat_dot_mat A (mat_dot_mat B C)"
  by (cases A rule: mat_T.cases; cases B rule: mat_T.cases; cases C rule: mat_T.cases)
    (simp add: algebra_simps)

lemma mat_dot_mat_id_left: "mat_dot_mat identity3 A = A"
  by (cases A rule: mat_T.cases) (simp add: identity3_def)

lemma det3_mult: "det3 (mat_dot_mat A B) = det3 A * det3 B"
  by (cases A rule: mat_T.cases; cases B rule: mat_T.cases) (simp add: algebra_simps)

lemma orthonormal_mult:
  assumes "orthonormal A" and "orthonormal B"
  shows "orthonormal (mat_dot_mat A B)"
proof -
  have "mat_dot_mat (mat_dot_mat A B) (mat_T (mat_dot_mat A B))
      = mat_dot_mat A (mat_dot_mat (mat_dot_mat B (mat_T B)) (mat_T A))"
    by (simp add: mat_T_mult mat_dot_mat_assoc)
  also have "\<dots> = identity3"
    using assms by (simp add: orthonormal_def mat_dot_mat_id_left)
  finally show ?thesis
    by (simp add: orthonormal_def)
qed

text \<open>
  Rows of unit length that are orthogonal to each other make the columns so as well. The
  squared distance of the Gram matrix from the identity is the same for rows and columns.
\<close>

lemma sum_nine_squares_zero:
  fixes x1 :: real
  assumes "x1\<^sup>2 + x2\<^sup>2 + x3\<^sup>2 + x4\<^sup>2 + x5\<^sup>2 + x6\<^sup>2 + x7\<^sup>2 + x8\<^sup>2 + x9\<^sup>2 = 0"
  shows "x1 = 0 \<and> x2 = 0 \<and> x3 = 0 \<and> x4 = 0 \<and> x5 = 0 \<and> x6 = 0 \<and> x7 = 0 \<and> x8 = 0 \<and> x9 = 0"
  using assms by (simp add: add_nonneg_eq_0_iff)

lemma gram_distance:
  fixes a :: real
  shows "(1 - (a*a + d*d + g*g))\<^sup>2 + (a*b + d*e + g*h)\<^sup>2 + (a*c + d*f + g*i)\<^sup>2
       + (a*b + d*e + g*h)\<^sup>2 + (1 - (b*b + e*e + h*h))\<^sup>2 + (b*c + e*f + h*i)\<^sup>2
       + (a*c + d*f + g*i)\<^sup>2 + (b*c + e*f + h*i)\<^sup>2 + (1 - (c*c + f*f + i*i))\<^sup>2
     = (1 - (a*a + b*b + c*c))\<^sup>2 + (a*d + b*e + c*f)\<^sup>2 + (a*g + b*h + c*i)\<^sup>2
       + (a*d + b*e + c*f)\<^sup>2 + (1 - (d*d + e*e + f*f))\<^sup>2 + (d*g + e*h + f*i)\<^sup>2
       + (a*g + b*h + c*i)\<^sup>2 + (d*g + e*h + f*i)\<^sup>2 + (1 - (g*g + h*h + i*i))\<^sup>2"
  by (simp add: power2_eq_square algebra_simps)

lemma orthonormal_transpose:
  assumes "orthonormal M"
  shows "mat_dot_mat (mat_T M) M = identity3"
proof -
  obtain a b c d e f g h i where M: "M = ((a, b, c), (d, e, f), (g, h, i))"
    by (cases M rule: mat_T.cases) blast
  from assms have rows:
    "a*a + b*b + c*c = 1" "a*d + b*e + c*f = 0" "a*g + b*h + c*i = 0"
    "d*d + e*e + f*f = 1" "d*g + e*h + f*i = 0" "g*g + h*h + i*i = 1"
    by (simp_all add: orthonormal_def M identity3_def)
  have "(1 - (a*a + d*d + g*g))\<^sup>2 + (a*b + d*e + g*h)\<^sup>2 + (a*c + d*f + g*i)\<^sup>2
       + (a*b + d*e + g*h)\<^sup>2 + (1 - (b*b + e*e + h*h))\<^sup>2 + (b*c + e*f + h*i)\<^sup>2
       + (a*c + d*f + g*i)\<^sup>2 + (b*c + e*f + h*i)\<^sup>2 + (1 - (c*c + f*f + i*i))\<^sup>2 = 0"
    unfolding gram_distance [of a d g b e h c f i] by (simp add: rows)
  from sum_nine_squares_zero [OF this]
  have cols: "a*a + d*d + g*g = 1" "a*b + d*e + g*h = 0" "a*c + d*f + g*i = 0"
    "b*b + e*e + h*h = 1" "b*c + e*f + h*i = 0" "c*c + f*f + i*i = 1"
    by simp_all
  show ?thesis
    using cols by (simp add: M identity3_def mult.commute)
qed

lemma frame_roundtrip:
  assumes "orthonormal (R f)"
  shows "nav2ecef f (ecef2nav f p) = p"
proof -
  have "nav2ecef f (ecef2nav f p)
      = vec_add (mat_dot_vec (mat_dot_mat (mat_T (R f)) (R f)) (vec_sub p (origin f))) (origin f)"
    by (simp add: nav2ecef_def ecef2nav_def mat_dot_vec_assoc)
  also have "\<dots> = vec_add (vec_sub p (origin f)) (origin f)"
    by (simp add: orthonormal_transpose [OF assms] mat_dot_vec_id)
  also have "\<dots> = p"
    by (rule vec_sub_add)
  finally show ?thesis .
qed

section \<open>The rotation matrices\<close>

lemma Ceg_rotation:
  fixes sL :: real
  assumes L: "sL\<^sup>2 + cL\<^sup>2 = 1" and l: "sl\<^sup>2 + cl\<^sup>2 = 1"
  shows "orthonormal ((- sL * cl, - sL * sl, cL), (- sl, cl, 0), (- cL * cl, - cL * sl, - sL))"
    and "det3 ((- sL * cl, - sL * sl, cL), (- sl, cl, 0), (- cL * cl, - cL * sl, - sL)) = 1"
proof -
  have e11: "sL * cl * (sL * cl) + sL * sl * (sL * sl) + cL * cL = 1"
  proof -
    have "sL * cl * (sL * cl) + sL * sl * (sL * sl) + cL * cL = sL\<^sup>2 * (sl\<^sup>2 + cl\<^sup>2) + cL\<^sup>2"
      by (simp add: power2_eq_square algebra_simps)
    then show ?thesis by (simp add: L l)
  qed
  have e13: "sL * cl * (cL * cl) + sL * sl * (cL * sl) - cL * sL = 0"
  proof -
    have "sL * cl * (cL * cl) + sL * sl * (cL * sl) - cL * sL
        = sL * cL * (sl\<^sup>2 + cl\<^sup>2) - cL * sL"
      by (simp add: power2_eq_square algebra_simps)
    then show ?thesis by (simp add: l)
  qed
  have e22: "sl * sl + cl * cl = 1"
    using l by (simp add: power2_eq_square)
  have e33: "cL * cl * (cL * cl) + cL * sl * (cL * sl) + sL * sL = 1"
  proof -
    have "cL * cl * (cL * cl) + cL * sl * (cL * sl) + sL * sL = cL\<^sup>2 * (sl\<^sup>2 + cl\<^sup>2) + sL\<^sup>2"
      by (simp add: power2_eq_square algebra_simps)
    then show ?thesis using L by (simp add: l)
  qed
  show "orthonormal ((- sL * cl, - sL * sl, cL), (- sl, cl, 0), (- cL * cl, - cL * sl, - sL))"
    using e11 e13 e22 e33 by (simp add: orthonormal_def identity3_def mult.commute)
  have "det3 ((- sL * cl, - sL * sl, cL), (- sl, cl, 0), (- cL * cl, - cL * sl, - sL))
      = (sL\<^sup>2 + cL\<^sup>2) * (sl\<^sup>2 + cl\<^sup>2)"
    by (simp add: power2_eq_square algebra_simps)
  then show "det3 ((- sL * cl, - sL * sl, cL), (- sl, cl, 0), (- cL * cl, - cL * sl, - sL)) = 1"
    by (simp add: L l)
qed

lemma Cgn_rotation:
  fixes w0 :: real
  assumes "w0\<^sup>2 + w1\<^sup>2 = 1"
  shows "orthonormal ((w1, w0, 0), (- w0, w1, 0), (0, 0, 1))"
    and "det3 ((w1, w0, 0), (- w0, w1, 0), (0, 0, 1)) = 1"
  using assms by (simp_all add: orthonormal_def identity3_def power2_eq_square add.commute)

lemma NED_matrix_proper:
  "proper_rotation ((- sin a * cos b, - sin a * sin b, cos a), (- sin b, cos b, 0),
     (- cos a * cos b, - cos a * sin b, - sin a))"
  unfolding proper_rotation_def
  by (intro conjI Ceg_rotation) simp_all

lemma NED_from_ll_R:
  "R (NED_from_ll lat lon alt) =
     ((- sin (DEG2RAD * lat) * cos (DEG2RAD * lon), - sin (DEG2RAD * lat) * sin (DEG2RAD * lon),
       cos (DEG2RAD * lat)),
      (- sin (DEG2RAD * lon), cos (DEG2RAD * lon), 0),
      (- cos (DEG2RAD * lat) * cos (DEG2RAD * lon), - cos (DEG2RAD * lat) * sin (DEG2RAD * lon),
       - sin (DEG2RAD * lat)))"
  by (simp add: NED_from_ll_def NED_def Let_def)

lemma NED_from_ecef_R:
  "R (NED_from_ecef x y z) = R (NED_from_ll (fst (ecef2llh x y z)) (fst (snd (ecef2llh x y z))) alt)"
  by (simp add: NED_from_ecef_def NED_from_ll_def NED_def Let_def split: prod.splits)

lemma NED_from_ll_proper: "proper_rotation (R (NED_from_ll lat lon alt))"
  unfolding NED_from_ll_R by (rule NED_matrix_proper)

lemma NED_from_ecef_proper: "proper_rotation (R (NED_from_ecef x y z))"
  unfolding NED_from_ecef_R [of x y z 0] by (rule NED_from_ll_proper)

lemma llh2DCM_product:
  "llh2DCM lat lon h (w0, w1) =
     mat_dot_mat ((w1, w0, 0), (- w0, w1, 0), (0, 0, 1))
       ((- sin lat * cos lon, - sin lat * sin lon, cos lat), (- sin lon, cos lon, 0),
        (- cos lat * cos lon, - cos lat * sin lon, - sin lat))"
  by (simp only: llh2DCM_def Let_def fst_conv snd_conv)

section \<open>Properties of the frame transforms\<close>

text \<open>
  C4. For every frame built by \<open>NED.from_ll(lat, lon, alt)\<close> or by
  \<open>NED.from_ecef(x, y, z)\<close>, \<open>ecef2nav\<close> maps the frame's own origin to the zero vector.
\<close>

theorem ecef2nav_origin_zero:
  "ecef2nav (NED_from_ll lat lon alt) (origin (NED_from_ll lat lon alt)) = (0, 0, 0)
   \<and> ecef2nav (NED_from_ecef x y z) (origin (NED_from_ecef x y z)) = (0, 0, 0)"
  by (simp add: ecef2nav_def vec_sub_self mat_dot_vec_zero)

text \<open>
  C3. For every frame whose rotation is orthonormal and every ECEF point \<open>p\<close>,
  \<open>nav2ecef\<close> undoes \<open>ecef2nav\<close> exactly over the reals; the frames built by
  \<open>NED.from_ll\<close> and \<open>NED.from_ecef\<close> are such frames.
\<close>

theorem nav2ecef_ecef2nav:
  "(orthonormal (R f) \<longrightarrow> nav2ecef f (ecef2nav f p) = p)
   \<and> nav2ecef (NED_from_ll lat lon alt) (ecef2nav (NED_from_ll lat lon alt) p) = p
   \<and> nav2ecef (NED_from_ecef x y z) (ecef2nav (NED_from_ecef x y z) p) = p"
proof (intro conjI impI)
  assume "orthonormal (R f)"
  then show "nav2ecef f (ecef2nav f p) = p"
    by (rule frame_roundtrip)
next
  have "orthonormal (R (NED_from_ll lat lon alt))"
    using NED_from_ll_proper [of lat lon alt] by (simp add: proper_rotation_def)
  then show "nav2ecef (NED_from_ll lat lon alt) (ecef2nav (NED_from_ll lat lon alt) p) = p"
    by (rule frame_roundtrip)
next
  have "orthonormal (R (NED_from_ecef x y z))"
    using NED_from_ecef_proper [of x y z] by (simp add: proper_rotation_def)
  then show "nav2ecef (NED_from_ecef x y z) (ecef2nav (NED_from_ecef x y z) p) = p"
    by (rule frame_roundtrip)
qed

theorem nav2ecef_ecef2nav_witness:
  "orthonormal (R (NED (10, 20, 30) ((0, 1, 0), (1, 0, 0), (0, 0, - 1))))
   \<and> nav2ecef (NED (10, 20, 30) ((0, 1, 0), (1, 0, 0), (0, 0, - 1)))
        (ecef2nav (NED (10, 20, 30) ((0, 1, 0), (1, 0, 0), (0, 0, - 1))) (1, 2, 3)) = (1, 2, 3)"
proof -
  have orth: "orthonormal (R (NED (10, 20, 30) ((0, 1, 0), (1, 0, 0), (0, 0, - 1))))"
    by (simp add: NED_def orthonormal_def identity3_def)
  from nav2ecef_ecef2nav [of "NED (10, 20, 30) ((0, 1, 0), (1, 0, 0), (0, 0, - 1))" "(1, 2, 3)" 0 0 0 1 0 0]
  have "orthonormal (R (NED (10, 20, 30) ((0, 1, 0), (1, 0, 0), (0, 0, - 1)))) \<longrightarrow>
        nav2ecef (NED (10, 20, 30) ((0, 1, 0), (1, 0, 0), (0, 0, - 1)))
          (ecef2nav (NED (10, 20, 30) ((0, 1, 0), (1, 0, 0), (0, 0, - 1))) (1, 2, 3)) = (1, 2, 3)"
    by (rule conjunct1)
  with orth show ?thesis by blast
qed

text \<open>
  C5. Equality of frames looks at the kind tag only. \<open>NED(o1, R1) == NED(o2, R2)\<close> holds for
  all origins and rotations, a \<open>NED\<close> frame and an \<open>ENU\<close> frame are never equal, and for
  both classes \<open>__eq__\<close> holds exactly when the tags of the two frames match.
\<close>

theorem frame_equality_by_kind:
  "NED_eq (NED o1 R1) (NED o2 R2)
   \<and> ENU_eq (ENU o1 R1) (ENU o2 R2)
   \<and> \<not> NED_eq (NED o1 R1) (ENU o2 R2)
   \<and> \<not> ENU_eq (ENU o1 R1) (NED o2 R2)
   \<and> NED_eq a b = (type a = type b)
   \<and> ENU_eq a b = (type a = type b)"
  by (cases "type a"; cases "type b")
    (simp_all add: NED_eq_def ENU_eq_def NED_def ENU_def FrameTypes_eq_def)

section \<open>Properties of the rotation matrices\<close>

text \<open>
  C6. Every constructed DCM is a proper rotation: for all \<open>lat\<close>, \<open>lon\<close>, \<open>h\<close> and every
  wander pair \<open>w\<close> with \<open>w[0]\<^sup>2 + w[1]\<^sup>2 = 1\<close>, the matrix of \<open>llh2DCM\<close> times its transpose is
  the identity and its determinant is one; the same holds for the rotation of every frame
  built by \<open>NED.from_ll\<close> or \<open>NED.from_ecef\<close>.
\<close>

theorem dcm_proper_rotation:
  "(w0\<^sup>2 + w1\<^sup>2 = 1 \<longrightarrow> proper_rotation (llh2DCM lat lon h (w0, w1)))
   \<and> proper_rotation (R (NED_from_ll lat' lon' alt))
   \<and> proper_rotation (R (NED_from_ecef x y z))"
proof (intro conjI impI)
  assume w: "w0\<^sup>2 + w1\<^sup>2 = 1"
  have Ceg: "proper_rotation ((- sin lat * cos lon, - sin lat * sin lon, cos lat),
      (- sin lon, cos lon, 0), (- cos lat * cos lon, - cos lat * sin lon, - sin lat))"
    by (rule NED_matrix_proper)
  show "proper_rotation (llh2DCM lat lon h (w0, w1))"
    unfolding llh2DCM_product proper_rotation_def
  proof
    show "orthonormal (mat_dot_mat ((w1, w0, 0), (- w0, w1, 0), (0, 0, 1))
        ((- sin lat * cos lon, - sin lat * sin lon, cos lat), (- sin lon, cos lon, 0),
         (- cos lat * cos lon, - cos lat * sin lon, - sin lat)))"
      using Cgn_rotation(1) [OF w] Ceg unfolding proper_rotation_def
      by (intro orthonormal_mult) simp_all
    show "det3 (mat_dot_mat ((w1, w0, 0), (- w0, w1, 0), (0, 0, 1))
        ((- sin lat * cos lon, - sin lat * sin lon, cos lat), (- sin lon, cos lon, 0),
         (- cos lat * cos lon, - cos lat * sin lon, - sin lat))) = 1"
      using Cgn_rotation(2) [OF w] Ceg unfolding proper_rotation_def det3_mult
      by simp
  qed
next
  show "proper_rotation (R (NED_from_ll lat' lon' alt))"
    by (rule NED_from_ll_proper)
next
  show "proper_rotation (R (NED_from_ecef x y z))"
    by (rule NED_from_ecef_proper)
qed

theorem dcm_proper_rotation_witness:
  "(0::real)\<^sup>2 + 1\<^sup>2 = 1 \<and> proper_rotation (llh2DCM 0 0 0 (0, 1))"
  using dcm_proper_rotation [of 0 1 0 0 0 0 0 0 0 0 0] by simp

text \<open>
  C10. The matrix that \<open>NED.from_ll\<close> builds inline is \<open>llh2DCM\<close> at the latitude and
  longitude in radians with the wander pair \<open>(0, 1)\<close>, whatever the height; \<open>NED.from_ecef\<close>
  builds the same matrix from the latitude and longitude that \<open>ecef2llh\<close> recovers, so the
  two factories use one rotation formula.
\<close>

theorem NED_rotation_is_llh2DCM:
  "R (NED_from_ll lat lon alt) = llh2DCM (lat * pi / 180) (lon * pi / 180) h (0, 1)
   \<and> R (NED_from_ecef x y z) =
       (case ecef2llh x y z of (lat', lon', h') \<Rightarrow>
          llh2DCM (lat' * pi / 180) (lon' * pi / 180) h (0, 1))
   \<and> R (NED_from_ecef x y z) =
       (case ecef2llh x y z of (lat', lon', h') \<Rightarrow> R (NED_from_ll lat' lon' alt))"
  by (simp add: NED_from_ll_def NED_from_ecef_def NED_def llh2DCM_def Let_def DEG2RAD_def
      mult.commute split: prod.splits)

section \<open>What the class \<open>ENU\<close> provides\<close>






section \<open>The round trip from ECEF to LLH and back\<close>

text \<open>
  \<open>ecef2llh\<close> recovers the latitude by Bowring's formula and the height as
  \<open>p / cos L - Re\<close>, the inverse of the ellipsoid point with
  \<open>z = (rn * (1 - E2) + H) * sin lat\<close>. \<open>llh2ecef\<close> computes \<open>z\<close> with the meridional
  radius \<open>rm\<close> in the place of \<open>rn * (1 - E2)\<close>, so the round trip returns
  \<open>z' = p * tan L - (rn - rm) * sin L\<close>. The lemmas below evaluate this at the point of
  the ellipsoid with \<open>x = 0.6 * RE\<close>, \<open>y = 0\<close> and \<open>z = 0.8 * RE * (1 - FLATTENING)\<close>,
  where the parametric angle has sine \<open>4 / 5\<close> and cosine \<open>3 / 5\<close>.
\<close>

lemma atan2_pos: "0 < x \<Longrightarrow> atan2 y x = arctan (y / x)"
  by (simp add: atan2_def)

lemma deg_rad_cancel: "DEG2RAD * (RAD2DEG * a) = a"
  by (simp add: DEG2RAD_def RAD2DEG_def)

lemma powr_three_halves: "0 < w \<Longrightarrow> w powr (3 / 2) = w * sqrt w"
proof -
  assume w: "0 < (w::real)"
  have "w powr (3 / 2) = w powr (1 + 1 / 2)" by simp
  also have "\<dots> = w powr 1 * w powr (1 / 2)" by (rule powr_add)
  also have "\<dots> = w * sqrt w" using w by (simp add: powr_half_sqrt)
  finally show ?thesis .
qed

lemma sqrt_25_9: "sqrt (25 / 9) = 5 / 3"
  by (rule real_sqrt_unique) (simp_all add: power2_eq_square)

lemma sin_arctan_4_3: "sin (arctan (4 / 3)) = 4 / 5"
  by (simp add: sin_arctan power2_eq_square sqrt_25_9)

lemma cos_arctan_4_3: "cos (arctan (4 / 3)) = 3 / 5"
  by (simp add: cos_arctan power2_eq_square sqrt_25_9)

lemma ecef2llh_lat_rad:
  "DEG2RAD * fst (ecef2llh x y z) =
     atan2 (z + (RE\<^sup>2 - (RE * (1 - FLATTENING))\<^sup>2) / (RE * (1 - FLATTENING))\<^sup>2 * (RE * (1 - FLATTENING))
              * (sin (atan2 (z * RE) (sqrt (x\<^sup>2 + y\<^sup>2) * (RE * (1 - FLATTENING))))) ^ 3)
           (sqrt (x\<^sup>2 + y\<^sup>2) - E2 * RE * (cos (atan2 (z * RE) (sqrt (x\<^sup>2 + y\<^sup>2) * (RE * (1 - FLATTENING))))) ^ 3)"
  by (simp add: ecef2llh_def Let_def deg_rad_cancel)

lemma ecef2llh_height:
  "snd (snd (ecef2llh x y z)) =
     sqrt (x\<^sup>2 + y\<^sup>2) / cos (DEG2RAD * fst (ecef2llh x y z))
       - RE / sqrt (1 - E2 * (sin (DEG2RAD * fst (ecef2llh x y z)))\<^sup>2)"
  unfolding ecef2llh_lat_rad by (simp add: ecef2llh_def Let_def)

lemma llh2ecef_z:
  "snd (snd (llh2ecef lat lon H)) =
     (RE * (1 - E2) / ((1 - E2 * (sin (DEG2RAD * lat))\<^sup>2) powr (3 / 2)) + H) * sin (DEG2RAD * lat)"
  by (simp add: llh2ecef_def Let_def)

lemma ecef_roundtrip_z:
  "snd (snd (ecef_roundtrip x y z)) =
     (RE * (1 - E2) / ((1 - E2 * (sin (DEG2RAD * fst (ecef2llh x y z)))\<^sup>2) powr (3 / 2))
        + (sqrt (x\<^sup>2 + y\<^sup>2) / cos (DEG2RAD * fst (ecef2llh x y z))
           - RE / sqrt (1 - E2 * (sin (DEG2RAD * fst (ecef2llh x y z)))\<^sup>2)))
      * sin (DEG2RAD * fst (ecef2llh x y z))"
proof -
  obtain lat lon h where e: "ecef2llh x y z = (lat, lon, h)"
    by (cases "ecef2llh x y z") blast
  from ecef2llh_height [of x y z]
  have h: "h = sqrt (x\<^sup>2 + y\<^sup>2) / cos (DEG2RAD * lat) - RE / sqrt (1 - E2 * (sin (DEG2RAD * lat))\<^sup>2)"
    by (simp add: e)
  show ?thesis
    by (simp add: ecef_roundtrip_def e llh2ecef_z h)
qed

lemma lat_at_input:
  fixes x0 z0 :: real
  assumes x0: "x0 = 3826882.2" and z0: "z0 = 5085401.8513961307434"
  shows "\<exists>t. 1.3378 \<le> t \<and> DEG2RAD * fst (ecef2llh x0 0 z0) = arctan t"
proof -
  define b where "b = RE * (1 - FLATTENING)"
  have b_pos: "0 < b" by (simp add: b_def RE_def FLATTENING_def)
  have x0_pos: "0 < x0" by (simp add: x0)
  have p: "sqrt (x0\<^sup>2 + 0\<^sup>2) = x0" using x0_pos by simp
  have ratio: "z0 * RE / (x0 * b) = 4 / 3"
    by (simp add: x0 z0 b_def RE_def FLATTENING_def)
  have theta: "atan2 (z0 * RE) (x0 * b) = arctan (4 / 3)"
    using x0_pos b_pos by (simp add: atan2_pos ratio)
  define N where "N = z0 + (RE\<^sup>2 - b\<^sup>2) / b\<^sup>2 * b * (4 / 5) ^ 3"
  define D where "D = x0 - E2 * RE * (3 / 5) ^ 3"
  have D_pos: "0 < D" by (simp add: D_def x0 E2_def RE_def power3_eq_cube)
  have t_lb: "1.3378 \<le> N / D"
    unfolding N_def D_def b_def by (simp add: x0 z0 E2_def RE_def FLATTENING_def power3_eq_cube power2_eq_square)
  have "DEG2RAD * fst (ecef2llh x0 0 z0) = atan2 N D"
    unfolding ecef2llh_lat_rad p b_def [symmetric] theta sin_arctan_4_3 cos_arctan_4_3
    by (simp add: N_def D_def)
  also have "\<dots> = arctan (N / D)" using D_pos by (rule atan2_pos)
  finally show ?thesis using t_lb by blast
qed

lemma curvature_gap_bound:
  fixes s c :: real
  assumes sc: "s\<^sup>2 + c\<^sup>2 = 1" and c2: "c\<^sup>2 \<le> 9 / 25"
  defines "w \<equiv> 1 - E2 * s\<^sup>2"
  shows "0 \<le> RE / sqrt w - RE * (1 - E2) / (w powr (3 / 2))"
    and "RE / sqrt w - RE * (1 - E2) / (w powr (3 / 2)) \<le> RE * E2 * (9 / 25) / (1 - E2)\<^sup>2"
proof -
  have E2: "0 < E2" "E2 < 1" by (simp_all add: E2_def)
  have RE: "0 < RE" by (simp add: RE_def)
  have s2: "s\<^sup>2 = 1 - c\<^sup>2" using sc by simp
  have c2_bounds: "0 \<le> c\<^sup>2" "c\<^sup>2 \<le> 1" using c2 by simp_all
  have w_eq: "w = 1 - E2 + E2 * c\<^sup>2" by (simp add: w_def s2 algebra_simps)
  have w_lb: "1 - E2 \<le> w" using E2 c2_bounds by (simp add: w_eq)
  have w_ub: "w \<le> 1"
  proof -
    have "E2 * c\<^sup>2 \<le> E2 * 1" using E2 c2_bounds by (intro mult_left_mono) simp_all
    then show ?thesis by (simp add: w_eq)
  qed
  have w_pos: "0 < w" using w_lb E2 by simp
  define r where "r = sqrt w"
  have r_pos: "0 < r" using w_pos by (simp add: r_def)
  have rr: "r * r = w" using w_pos by (simp add: r_def)
  have r_le1: "r \<le> 1" using w_ub by (simp add: r_def)
  have "r * r \<le> r * 1" using r_le1 r_pos by (intro mult_left_mono) simp_all
  then have w_le_r: "w \<le> r" by (simp add: rr)
  have powr: "w powr (3 / 2) = w * r" using w_pos by (simp add: powr_three_halves r_def)
  have wr_pos: "0 < w * r" using w_pos r_pos by simp
  have "RE / r = RE * w / (w * r)" using w_pos r_pos by simp
  then have gap: "RE / r - RE * (1 - E2) / (w * r) = RE * E2 * c\<^sup>2 / (w * r)"
    by (simp add: w_eq diff_divide_distrib [symmetric] algebra_simps)
  have num_nonneg: "0 \<le> RE * E2 * c\<^sup>2" using RE E2 c2_bounds by simp
  show "0 \<le> RE / sqrt w - RE * (1 - E2) / (w powr (3 / 2))"
    unfolding powr r_def [symmetric] gap using num_nonneg wr_pos by simp
  have lb_pos: "0 < 1 - E2" using E2 by simp
  have "(1 - E2) * (1 - E2) \<le> w * r"
    using w_lb w_le_r lb_pos by (intro mult_mono) simp_all
  then have den: "(1 - E2)\<^sup>2 \<le> w * r" by (simp add: power2_eq_square)
  have den_pos: "0 < (1 - E2)\<^sup>2" using lb_pos by simp
  have "RE * E2 * c\<^sup>2 \<le> RE * E2 * (9 / 25)"
    using RE E2 c2 by (intro mult_left_mono) simp_all
  then have "RE * E2 * c\<^sup>2 / (w * r) \<le> RE * E2 * (9 / 25) / (1 - E2)\<^sup>2"
    using num_nonneg den den_pos by (intro frac_le) simp_all
  then show "RE / sqrt w - RE * (1 - E2) / (w powr (3 / 2)) \<le> RE * E2 * (9 / 25) / (1 - E2)\<^sup>2"
    unfolding powr r_def [symmetric] gap .
qed

text \<open>
  C1 does not hold of the code. At the ECEF point \<open>(3826882.2, 0, 5085401.8513961307434)\<close>,
  which lies on the ellipsoid at latitude 53.2 degrees, the \<open>z\<close> that
  \<open>llh2ecef(*ecef2llh(x, y, z))\<close> returns is more than 18000 m above the \<open>z\<close> it started
  from, so it is not within \<open>1e-6\<close> m of it.
\<close>

theorem ecef_roundtrip_z_deviation:
  "18000 < snd (snd (ecef_roundtrip 3826882.2 0 5085401.8513961307434)) - 5085401.8513961307434
   \<and> \<not> \<bar>snd (snd (ecef_roundtrip 3826882.2 0 5085401.8513961307434))
          - 5085401.8513961307434\<bar> \<le> 1 / 10 ^ 6"
proof -
  define x0 :: real where "x0 = 3826882.2"
  define z0 :: real where "z0 = 5085401.8513961307434"
  obtain t where t: "1.3378 \<le> t" and L: "DEG2RAD * fst (ecef2llh x0 0 z0) = arctan t"
    using lat_at_input [OF x0_def z0_def] by blast
  define s where "s = sin (arctan t)"
  define c where "c = cos (arctan t)"
  have c_pos: "0 < c" unfolding c_def by (rule cos_gt_zero_pi [OF arctan_lbound arctan_ubound])
  have sc: "s\<^sup>2 + c\<^sup>2 = 1" by (simp add: s_def c_def)
  have "tan (arctan t) = t" by (rule tan_arctan)
  then have s_tc: "s = t * c" using c_pos by (simp add: tan_def s_def c_def field_simps)
  have t_pos: "0 < t" using t by simp
  have s_le1: "s \<le> 1" by (simp add: s_def)
  have "(4 / 3)\<^sup>2 \<le> t\<^sup>2" using t by (intro power_mono) simp_all
  then have t2: "16 / 9 \<le> t\<^sup>2" by (simp add: power2_eq_square)
  have "c\<^sup>2 * (1 + t\<^sup>2) = 1" using sc by (simp add: s_tc power_mult_distrib algebra_simps)
  then have c2_eq: "c\<^sup>2 = 1 / (1 + t\<^sup>2)" by (simp add: field_simps add_nonneg_eq_0_iff)
  have c2: "c\<^sup>2 \<le> 9 / 25"
    unfolding c2_eq using t2 by (simp add: field_simps)
  define K where "K = RE / sqrt (1 - E2 * s\<^sup>2) - RE * (1 - E2) / ((1 - E2 * s\<^sup>2) powr (3 / 2))"
  have K: "0 \<le> K" "K \<le> RE * E2 * (9 / 25) / (1 - E2)\<^sup>2"
    unfolding K_def using curvature_gap_bound [OF sc c2] by simp_all
  have "K * s \<le> K * 1" using K(1) s_le1 by (intro mult_left_mono) simp_all
  then have Ks: "K * s \<le> RE * E2 * (9 / 25) / (1 - E2)\<^sup>2" using K(2) by simp
  have x0_pos: "0 < x0" by (simp add: x0_def)
  have p: "sqrt (x0\<^sup>2 + 0\<^sup>2) = x0" using x0_pos by simp
  have "x0 / c * s = x0 * t" using c_pos by (simp add: s_tc)
  then have z': "snd (snd (ecef_roundtrip x0 0 z0)) = x0 * t - K * s"
    unfolding ecef_roundtrip_z L p s_def [symmetric] c_def [symmetric] K_def
    by (simp add: algebra_simps)
  have "x0 * 1.3378 \<le> x0 * t" using t x0_pos by (intro mult_left_mono) simp_all
  then have "x0 * 1.3378 - RE * E2 * (9 / 25) / (1 - E2)\<^sup>2 \<le> snd (snd (ecef_roundtrip x0 0 z0))"
    using Ks by (simp add: z')
  moreover have "18000 + z0 < x0 * 1.3378 - RE * E2 * (9 / 25) / (1 - E2)\<^sup>2"
    by (simp add: x0_def z0_def RE_def E2_def power2_eq_square)
  ultimately have far: "18000 < snd (snd (ecef_roundtrip x0 0 z0)) - z0" by simp
  then have "\<not> \<bar>snd (snd (ecef_roundtrip x0 0 z0)) - z0\<bar> \<le> 1 / 10 ^ 6" by simp
  with far show ?thesis unfolding x0_def z0_def by blast
qed

section \<open>The errors of \<open>ecef2llh\<close>\<close>






text \<open>
  At a pole, \<open>x = y = 0\<close> and \<open>z > 0\<close>, the latitude over the reals is exactly \<open>pi / 2\<close>,
  whose cosine is zero, and the longitude is \<open>atan2(0, 0) = 0\<close>. The double nearest to
  \<open>pi / 2\<close> has a nonzero cosine; what is proved of the quotient below is proved away from
  the poles.
\<close>

lemma atan2_pos_zero: "0 < y \<Longrightarrow> atan2 y 0 = pi / 2"
  by (simp add: atan2_def)

lemma ecef2llh_pole:
  assumes "0 < z"
  shows "DEG2RAD * fst (ecef2llh 0 0 z) = pi / 2"
    and "cos (DEG2RAD * fst (ecef2llh 0 0 z)) = 0"
    and "fst (snd (ecef2llh 0 0 z)) = 0"
proof -
  have theta: "atan2 (z * RE) 0 = pi / 2"
    using assms by (simp add: atan2_pos_zero RE_def)
  define b where "b = RE * (1 - FLATTENING)"
  have "0 < (RE\<^sup>2 - b\<^sup>2) / b\<^sup>2 * b"
    by (simp add: b_def RE_def FLATTENING_def power2_eq_square)
  then have N: "0 < z + (RE\<^sup>2 - b\<^sup>2) / b\<^sup>2 * b"
    using assms by simp
  have "DEG2RAD * fst (ecef2llh 0 0 z) = atan2 (z + (RE\<^sup>2 - b\<^sup>2) / b\<^sup>2 * b) 0"
    unfolding ecef2llh_lat_rad b_def [symmetric] by (simp add: theta)
  also have "\<dots> = pi / 2"
    using N by (rule atan2_pos_zero)
  finally show L: "DEG2RAD * fst (ecef2llh 0 0 z) = pi / 2" .
  show "cos (DEG2RAD * fst (ecef2llh 0 0 z)) = 0"
    by (simp add: L)
  show "fst (snd (ecef2llh 0 0 z)) = 0"
    by (simp add: ecef2llh_def Let_def atan2_def)
qed




end
